theory Spec2Isabelle
  imports Main "HOL-Library.Sublist"
begin

section \<open>The generate strategy of oteapi-dlite-plugin\<close>

text \<open>
  A shallow embedding of \<^verbatim>\<open>DLiteGenerateStrategy.get\<close>
  (\<^verbatim>\<open>src/oteapi_dlite/strategies/generate.py\<close>, lines 199-334). The method
  resolves a storage driver, fetches the session's collection, selects what to store,
  stores it at a location or in the data cache, optionally documents it in a knowledge
  base, and returns the collection id. Every side effect is a change of an explicit
  \<open>world\<close>; every exception is an \<open>error\<close> returned together with the world as it
  stands when the exception leaves \<open>get\<close>.
\<close>

subsection \<open>Python values\<close>

type_synonym bytes = string

text \<open>
  Python truthiness of an \<^verbatim>\<open>Optional[str]\<close>: \<^verbatim>\<open>None\<close> and the empty string are
  false. \<open>given s\<close> is the string when it is truthy.
\<close>

definition given :: "string option \<Rightarrow> string option" where
  "given s = (case s of None \<Rightarrow> None | Some v \<Rightarrow> if v = [] then None else Some v)"

text \<open>
  The exceptions that can leave \<open>get\<close>. Those raised by the method itself keep their
  Python names; the spec's taxonomy calls \<open>ValueError\<close> a ConfigurationError,
  \<open>StopIteration\<close> a NoMatchError, \<open>KeyError\<close> a MissingConfigurationError and
  \<open>KBError\<close> a ProvenanceConsistencyError. The others are the failures of the
  collaborators, under the names the spec gives them; \<open>DLiteError\<close> stands for any
  other exception raised inside DLite, with the name of its class.
\<close>

datatype error =
    ValueError
  | StopIteration
  | KeyError
  | KBError "string option"
  | NameError string
  | FileNotFoundError string
  | UnsupportedMediaTypeError
  | NotFoundError
  | PersistenceError
  | TriplestoreError
  | DLiteError string

subsection \<open>Configuration (lines 32-168)\<close>

record datacache_config =
  accessKey :: "string option"

record config =
  driver :: "string option"
  mediaType :: "string option"
  options :: "string option"
  location :: "string option"
  label :: "string option"
  datamodel :: "string option"
  store_collection :: bool
  store_collection_id :: "string option"
  allow_incomplete :: "bool option"
  collection_id :: "string option"
  datacache_config :: "datacache_config option"
  kb_document_iri :: "string option"
  kb_document_context :: "(string \<times> string) list option"
  kb_document_computation :: "string option"

subsection \<open>Instances, collections and the world\<close>

record dlite_instance =
  inst_uuid :: string
  meta_uri :: string
  properties :: string

type_synonym triple = "string \<times> string \<times> string"

record collection =
  coll_uuid :: string
  coll_instances :: "(string \<times> dlite_instance) list"
  coll_relations :: "triple list"

text \<open>What the variable \<^verbatim>\<open>inst\<close> of \<open>get\<close> can hold: an instance or a collection.\<close>

datatype artifact = Inst dlite_instance | Coll collection

definition collection_meta_uri :: string where
  "collection_meta_uri = ''http://onto-ns.com/meta/0.1/Collection''"

fun artifact_meta_uri :: "artifact \<Rightarrow> string" where
  "artifact_meta_uri (Inst i) = meta_uri i"
| "artifact_meta_uri (Coll c) = collection_meta_uri"

text \<open>
  A Python generator of instances, as \<^verbatim>\<open>coll.get_instances(...)\<close> returns one: each step
  yields an instance, raises an exception from inside the generator, or finds the
  generator exhausted. \<^verbatim>\<open>next(instances)\<close> runs the first step; on an exhausted generator
  it raises \<open>StopIteration\<close>.
\<close>

datatype generator = Yield dlite_instance generator | Raise error | Exhausted

fun py_next :: "generator \<Rightarrow> error + dlite_instance" where
  "py_next (Yield i rest) = Inr i"
| "py_next (Raise err) = Inl err"
| "py_next Exhausted = Inl StopIteration"

type_synonym settings = "(string \<times> string) list"

text \<open>The resource description of lines 272-290.\<close>

record resource =
  downloadUrl :: "string option"
  res_mediaType :: string
  res_metadata :: string
  res_driver :: "string option"
  res_options :: "string option"

text \<open>The calls made on the knowledge base, in the order they are made.\<close>

datatype event =
    TsOpen settings
  | SaveContainer resource string
  | TsAdd triple
  | TsRestrictions string string
  | TsClose

record world =
  session_collection_id :: "string option"
  session_settings :: "string \<rightharpoonup> settings"
  registry :: "string \<rightharpoonup> collection"
  files :: "string \<rightharpoonup> bytes"
  cache :: "string \<rightharpoonup> bytes"
  graph :: "triple list"
  trace :: "event list"

text \<open>
  The collaborators outside the repository (DLite, tempfile, tripper), as parameters:
  each may succeed or fail in any way. \<open>mediatypes\<close> is the table inside
  \<^verbatim>\<open>get_driver\<close>; \<open>new_uuid\<close> is the id DLite gives a newly created collection;
  \<open>mkdtemp\<close> is the directory that \<^verbatim>\<open>tempfile.TemporaryDirectory()\<close> creates;
  \<open>dlite_copy\<close> is DLite's \<^verbatim>\<open>coll.copy(newid=...)\<close>, whose result is DLite's business.
\<close>

record ext =
  mediatypes :: "(string \<times> string) list"
  new_uuid :: string
  mkdtemp :: string
  dlite_get_instances :: "collection \<Rightarrow> string \<Rightarrow> bool option \<Rightarrow> generator"
  dlite_copy :: "collection \<Rightarrow> string \<Rightarrow> error + collection"
  dlite_save :: "artifact \<Rightarrow> string \<Rightarrow> string \<Rightarrow> string option \<Rightarrow> (string \<rightharpoonup> bytes) \<Rightarrow> error + bytes"
  ts_connect :: "settings \<Rightarrow> error option"
  ts_save_container :: "triple list \<Rightarrow> resource \<Rightarrow> string \<Rightarrow> error + triple list"
  ts_add :: "triple list \<Rightarrow> triple \<Rightarrow> error + triple list"
  ts_restrictions :: "triple list \<Rightarrow> string \<Rightarrow> string \<Rightarrow> error + string list"
  ts_load_container :: "triple list \<Rightarrow> string option \<Rightarrow> error + string option"
  ts_close :: "triple list \<Rightarrow> error option"

subsection \<open>The helpers of \<^verbatim>\<open>oteapi_dlite.utils\<close>\<close>

text \<open>
  Modelled from the spec: \<^verbatim>\<open>get_driver\<close> of \<^verbatim>\<open>oteapi_dlite/utils/utils.py\<close>, which is
  not among the sources. Section 4.2: look the media type up in a fixed table, fail with
  UnsupportedMediaTypeError if it is absent, and with ConfigurationError when no media
  type is given.
\<close>

definition get_driver :: "ext \<Rightarrow> string option \<Rightarrow> error + string" where
  "get_driver e mt =
     (case given mt of
        None \<Rightarrow> Inl ValueError
      | Some m \<Rightarrow>
          (case map_of (mediatypes e) m of
             None \<Rightarrow> Inl UnsupportedMediaTypeError
           | Some d \<Rightarrow> Inr d))"

text \<open>
  Modelled from the spec: \<^verbatim>\<open>get_collection\<close> of \<^verbatim>\<open>oteapi_dlite/utils/utils.py\<close>.
  Section 4.1: with an id, the existing collection of that id or NotFoundError; without
  one, the collection of the session, created if absent.
\<close>

definition get_collection :: "ext \<Rightarrow> world \<Rightarrow> string option \<Rightarrow> (error + collection) \<times> world" where
  "get_collection e w cid =
     (case cid of
        Some i \<Rightarrow>
          (case registry w i of
             None \<Rightarrow> (Inl NotFoundError, w)
           | Some c \<Rightarrow> (Inr c, w))
      | None \<Rightarrow>
          (case (case session_collection_id w of None \<Rightarrow> None | Some i \<Rightarrow> registry w i) of
             Some c \<Rightarrow> (Inr c, w)
           | None \<Rightarrow>
               (Inr \<lparr>coll_uuid = new_uuid e, coll_instances = [], coll_relations = []\<rparr>,
                w\<lparr>session_collection_id := Some (new_uuid e),
                  registry := (registry w)(new_uuid e \<mapsto>
                    \<lparr>coll_uuid = new_uuid e, coll_instances = [], coll_relations = []\<rparr>)\<rparr>)))"

text \<open>
  Modelled from the spec: \<^verbatim>\<open>update_collection\<close> of \<^verbatim>\<open>oteapi_dlite/utils/utils.py\<close>.
  Section 4.1: publish the collection back into the session context.
\<close>

definition update_collection :: "collection \<Rightarrow> world \<Rightarrow> world" where
  "update_collection c w = w\<lparr>registry := (registry w)(coll_uuid c \<mapsto> c)\<rparr>"

text \<open>
  Modelled from the spec: \<^verbatim>\<open>get_settings\<close> of \<^verbatim>\<open>oteapi_dlite/utils/utils.py\<close>.
  Section 4.5: the settings stored in the session under a settings key, if any.
\<close>

definition get_settings :: "world \<Rightarrow> string \<Rightarrow> settings option" where
  "get_settings w k = session_settings w k"

subsection \<open>Driver resolution and selection (lines 216-241)\<close>

definition resolve_driver :: "ext \<Rightarrow> config \<Rightarrow> error + string" where
  "resolve_driver e c =
     (case given (driver c) of
        Some d \<Rightarrow> Inr d
      | None \<Rightarrow> get_driver e (mediaType c))"

text \<open>
  The \<^verbatim>\<open>if/elif/elif/else\<close> chain of lines 224-241. \<^verbatim>\<open>coll[label]\<close> fails in DLite
  when the label is absent; \<^verbatim>\<open>next(instances)\<close> raises \<open>StopIteration\<close> on an
  exhausted generator and passes on what the generator itself raises; \<^verbatim>\<open>coll.copy\<close> may
  fail inside DLite.
\<close>

definition select_inst :: "ext \<Rightarrow> config \<Rightarrow> collection \<Rightarrow> error + artifact" where
  "select_inst e c coll =
     (case given (label c) of
        Some l \<Rightarrow>
          (case map_of (coll_instances coll) l of
             None \<Rightarrow> Inl NotFoundError
           | Some i \<Rightarrow> Inr (Inst i))
      | None \<Rightarrow>
          (case given (datamodel c) of
             Some m \<Rightarrow>
               (case py_next (dlite_get_instances e coll m (allow_incomplete c)) of
                  Inl err \<Rightarrow> Inl err
                | Inr i \<Rightarrow> Inr (Inst i))
           | None \<Rightarrow>
               if store_collection c then
                 (case given (store_collection_id c) of
                    Some newid \<Rightarrow>
                      (case dlite_copy e coll newid of
                         Inl err \<Rightarrow> Inl err
                       | Inr cp \<Rightarrow> Inr (Coll cp))
                  | None \<Rightarrow> Inr (Coll coll))
               else Inl ValueError))"

subsection \<open>Saving the instance (lines 243-255)\<close>

text \<open>\<^verbatim>\<open>inst.save(driver, location, options)\<close>: the driver writes its bytes at the location.\<close>

definition inst_save ::
  "ext \<Rightarrow> artifact \<Rightarrow> string \<Rightarrow> string \<Rightarrow> string option \<Rightarrow> world \<Rightarrow> (error + unit) \<times> world" where
  "inst_save e inst drv loc opts w =
     (case dlite_save e inst drv loc opts (files w) of
        Inl err \<Rightarrow> (Inl err, w)
      | Inr b \<Rightarrow> (Inr (), w\<lparr>files := (files w)(loc \<mapsto> b)\<rparr>))"

text \<open>Leaving the \<^verbatim>\<open>with tempfile.TemporaryDirectory()\<close> block removes the directory.\<close>

definition rmtree :: "string \<Rightarrow> world \<Rightarrow> world" where
  "rmtree d w = w\<lparr>files := (\<lambda>p. if prefix (d @ ''/'') p then None else files w p)\<rparr>"

definition cache_key :: "config \<Rightarrow> string" where
  "cache_key c =
     (case datacache_config c of
        None \<Rightarrow> ''generate_data''
      | Some cc \<Rightarrow>
          (case given (accessKey cc) of
             Some k \<Rightarrow> k
           | None \<Rightarrow> ''generate_data''))"

text \<open>
  Line 253 passes the plain string \<^verbatim>\<open>"{tmpdir}/data"\<close> to \<^verbatim>\<open>inst.save\<close> (it has no
  \<^verbatim>\<open>f\<close> prefix), while line 254 opens \<^verbatim>\<open>f"{tmpdir}/data"\<close>, the file in the temporary
  directory.
\<close>

definition persist :: "ext \<Rightarrow> config \<Rightarrow> string \<Rightarrow> artifact \<Rightarrow> world \<Rightarrow> (error + unit) \<times> world" where
  "persist e c drv inst w =
     (case given (location c) of
        Some loc \<Rightarrow> inst_save e inst drv loc (options c) w
      | None \<Rightarrow>
          (case inst_save e inst drv ''{tmpdir}/data'' (options c) w of
             (Inl err, w1) \<Rightarrow> (Inl err, rmtree (mkdtemp e) w1)
           | (Inr u, w1) \<Rightarrow>
               (case files w1 (mkdtemp e @ ''/data'') of
                  None \<Rightarrow> (Inl (FileNotFoundError (mkdtemp e @ ''/data'')), rmtree (mkdtemp e) w1)
                | Some b \<Rightarrow>
                    (Inr (), rmtree (mkdtemp e) (w1\<lparr>cache := (cache w1)(cache_key c \<mapsto> b)\<rparr>)))))"

subsection \<open>Documenting the instance in the knowledge base (lines 257-325)\<close>

definition hasInput :: string where
  "hasInput = ''https://w3id.org/emmo#EMMO_36e69413_8c59_4799_946c_10b05d266e22''"

definition resource_of :: "config \<Rightarrow> artifact \<Rightarrow> resource" where
  "resource_of c inst =
     \<lparr>downloadUrl = location c,
      res_mediaType = (case given (mediaType c) of Some m \<Rightarrow> m | None \<Rightarrow> ''application/vnd.dlite-parse''),
      res_metadata = (case given (datamodel c) of Some m \<Rightarrow> m | None \<Rightarrow> artifact_meta_uri inst),
      res_driver = driver c,
      res_options = options c\<rparr>"

definition log_event :: "event \<Rightarrow> world \<Rightarrow> world" where
  "log_event ev w = w\<lparr>trace := trace w @ [ev]\<rparr>"

text \<open>Lines 301-303: one triple per entry of \<^verbatim>\<open>kb_document_context\<close>.\<close>

fun add_context :: "ext \<Rightarrow> string \<Rightarrow> (string \<times> string) list \<Rightarrow> world \<Rightarrow> (error + unit) \<times> world" where
  "add_context e iri [] w = (Inr (), w)"
| "add_context e iri ((p, v) # kvs) w =
     (case ts_add e (graph w) (iri, p, v) of
        Inl err \<Rightarrow> (Inl err, log_event (TsAdd (iri, p, v)) w)
      | Inr g \<Rightarrow> add_context e iri kvs (log_event (TsAdd (iri, p, v)) (w\<lparr>graph := g\<rparr>)))"

text \<open>
  The names bound where the loop body of lines 310-322 runs: the module's imports and
  definitions (lines 4-25), the classes, and the local variables of \<open>get\<close> with the two
  names imported at lines 269-270. Looking up any other name raises \<open>NameError\<close>.
\<close>

definition bound_names :: "string list" where
  "bound_names =
     [''tempfile'', ''TYPE_CHECKING'', ''Annotated'', ''Optional'', ''DataCache'',
      ''AttrDict'', ''DataCacheConfig'', ''FunctionConfig'', ''Field'', ''dataclass'',
      ''DLiteSessionUpdate'', ''get_collection'', ''get_driver'', ''get_settings'',
      ''update_collection'', ''hasInput'', ''KBError'', ''DLiteStorageConfig'',
      ''DLiteGenerateConfig'', ''DLiteGenerateStrategy'',
      ''self'', ''session'', ''config'', ''cacheconfig'', ''driver'', ''coll'', ''inst'',
      ''instances'', ''key'', ''cache'', ''tmpdir'', ''f'', ''kb_settings'',
      ''Triplestore'', ''save_container'', ''resource'', ''ts'', ''prop'', ''val'',
      ''restrictions'', ''r'', ''indv'', ''d'', ''metaid'']"

definition lookup_name :: "string \<Rightarrow> error + unit" where
  "lookup_name n = (if n \<in> set bound_names then Inr () else Inl (NameError n))"

text \<open>
  The loop body, lines 310-322. \<^verbatim>\<open>inputs.append(r["value"])\<close> looks the name
  \<^verbatim>\<open>inputs\<close> up first; \<^verbatim>\<open>list.append\<close> returns \<^verbatim>\<open>None\<close>, which is what \<^verbatim>\<open>indv\<close>
  would hold; then \<^verbatim>\<open>load_container\<close> is looked up and called, and the metadata entry
  of its result is tested.
\<close>

definition check_input :: "ext \<Rightarrow> world \<Rightarrow> string \<Rightarrow> error + unit" where
  "check_input e w r =
     (case lookup_name ''inputs'' of
        Inl err \<Rightarrow> Inl err
      | Inr u \<Rightarrow>
          (case lookup_name ''load_container'' of
             Inl err \<Rightarrow> Inl err
           | Inr u' \<Rightarrow>
               (case ts_load_container e (graph w) None of
                  Inl err \<Rightarrow> Inl err
                | Inr metaid \<Rightarrow>
                    (case given metaid of
                       None \<Rightarrow> Inl (KBError None)
                     | Some m \<Rightarrow> Inr ()))))"

fun check_inputs :: "ext \<Rightarrow> world \<Rightarrow> string list \<Rightarrow> error + unit" where
  "check_inputs e w [] = Inr ()"
| "check_inputs e w (r # rs) =
     (case check_input e w r of
        Inl err \<Rightarrow> Inl err
      | Inr u \<Rightarrow> check_inputs e w rs)"

text \<open>The body of the \<^verbatim>\<open>try\<close> block, lines 294-322.\<close>

definition kb_body :: "ext \<Rightarrow> config \<Rightarrow> string \<Rightarrow> resource \<Rightarrow> world \<Rightarrow> (error + unit) \<times> world" where
  "kb_body e c iri res w =
     (case ts_save_container e (graph w) res iri of
        Inl err \<Rightarrow> (Inl err, log_event (SaveContainer res iri) w)
      | Inr g \<Rightarrow>
          (case add_context e iri (case kb_document_context c of None \<Rightarrow> [] | Some kvs \<Rightarrow> kvs)
                  (log_event (SaveContainer res iri) (w\<lparr>graph := g\<rparr>)) of
             (Inl err, w1) \<Rightarrow> (Inl err, w1)
           | (Inr u, w1) \<Rightarrow>
               (case given (kb_document_computation c) of
                  None \<Rightarrow> (Inr (), w1)
                | Some computation \<Rightarrow>
                    (case ts_restrictions e (graph w1) computation hasInput of
                       Inl err \<Rightarrow> (Inl err, log_event (TsRestrictions computation hasInput) w1)
                     | Inr rs \<Rightarrow>
                         (check_inputs e w1 rs, log_event (TsRestrictions computation hasInput) w1)))))"

text \<open>
  Lines 258-325. The \<^verbatim>\<open>finally\<close> clause closes the connection after the body, whatever
  the body did; an exception raised by \<^verbatim>\<open>ts.close()\<close> itself replaces the body's.
\<close>

definition document :: "ext \<Rightarrow> config \<Rightarrow> artifact \<Rightarrow> world \<Rightarrow> (error + unit) \<times> world" where
  "document e c inst w =
     (case given (kb_document_iri c) of
        None \<Rightarrow> (Inr (), w)
      | Some iri \<Rightarrow>
          (case get_settings w ''tripper.triplestore'' of
             None \<Rightarrow> (Inl KeyError, w)
           | Some kb_settings \<Rightarrow>
               if kb_settings = [] then (Inl KeyError, w)
               else
                 (case ts_connect e kb_settings of
                    Some err \<Rightarrow> (Inl err, w)
                  | None \<Rightarrow>
                      (case kb_body e c iri (resource_of c inst) (log_event (TsOpen kb_settings) w) of
                         (r, w1) \<Rightarrow>
                           (case ts_close e (graph w1) of
                              Some err \<Rightarrow> (Inl err, log_event TsClose w1)
                            | None \<Rightarrow> (r, log_event TsClose w1))))))"

subsection \<open>The strategy (lines 199-334)\<close>

datatype session_update = DLiteSessionUpdate string

definition get :: "ext \<Rightarrow> config \<Rightarrow> world \<Rightarrow> (error + session_update) \<times> world" where
  "get e c w =
     (case resolve_driver e c of
        Inl err \<Rightarrow> (Inl err, w)
      | Inr drv \<Rightarrow>
          (case get_collection e w (collection_id c) of
             (Inl err, w1) \<Rightarrow> (Inl err, w1)
           | (Inr coll, w1) \<Rightarrow>
               (case select_inst e c coll of
                  Inl err \<Rightarrow> (Inl err, w1)
                | Inr inst \<Rightarrow>
                    (case persist e c drv inst w1 of
                       (Inl err, w2) \<Rightarrow> (Inl err, w2)
                     | (Inr u, w2) \<Rightarrow>
                         (case document e c inst w2 of
                            (Inl err, w3) \<Rightarrow> (Inl err, w3)
                          | (Inr u', w3) \<Rightarrow>
                              (Inr (DLiteSessionUpdate (coll_uuid coll)),
                               update_collection coll w3))))))"

subsection \<open>Reading the trace\<close>

text \<open>The calls that \<open>w'\<close> has logged beyond those of \<open>w\<close>.\<close>

definition new_events :: "world \<Rightarrow> world \<Rightarrow> event list" where
  "new_events w w' = drop (length (trace w)) (trace w')"

fun is_open :: "event \<Rightarrow> bool" where
  "is_open (TsOpen s) = True"
| "is_open ev = False"

definition opens :: "event list \<Rightarrow> nat" where
  "opens evs = length (filter is_open evs)"

definition closes :: "event list \<Rightarrow> nat" where
  "closes evs = length (filter (\<lambda>ev. ev = TsClose) evs)"

text \<open>The calls made through an open connection after the resource description is saved.\<close>

fun is_call :: "event \<Rightarrow> bool" where
  "is_call (TsAdd t) = True"
| "is_call (TsRestrictions a b) = True"
| "is_call ev = False"

text \<open>
  The temporary directory is new: nothing lies in it before the call, and its absolute
  path is not the relative directory name \<^verbatim>\<open>{tmpdir}\<close>.
\<close>

definition tmp_fresh :: "ext \<Rightarrow> world \<Rightarrow> bool" where
  "tmp_fresh e w = (files w (mkdtemp e @ ''/data'') = None \<and> mkdtemp e \<noteq> ''{tmpdir}'')"

subsection \<open>A concrete session\<close>

text \<open>
  The collection of the repository's test (\<^verbatim>\<open>src/tests/strategies/test_serialise.py\<close>):
  one relation and one instance, labelled \<^verbatim>\<open>image\<close>.
\<close>

definition image_meta :: string where
  "image_meta = ''http://onto-ns.com/meta/1.0/Image''"

definition image :: dlite_instance where
  "image = \<lparr>inst_uuid = ''u-image'', meta_uri = image_meta, properties = ''[[[1],[2]],[[3],[4]]]''\<rparr>"

definition coll0 :: collection where
  "coll0 = \<lparr>coll_uuid = ''c0'', coll_instances = [(''image'', image)],
            coll_relations = [(''subject'', ''predicate'', ''object'')]\<rparr>"

text \<open>
  Stand-ins for the collaborators: a driver that writes a rendering of the artifact and
  knows only \<^verbatim>\<open>json\<close>; a generator that yields the instances of the collection that
  have the datamodel; a copy that keeps the content and derives the uuid from the new id;
  a knowledge base that stores what it is given.
\<close>

fun yield_all :: "dlite_instance list \<Rightarrow> generator" where
  "yield_all [] = Exhausted"
| "yield_all (i # rest) = Yield i (yield_all rest)"

fun render :: "artifact \<Rightarrow> bytes" where
  "render (Inst i) = ''instance '' @ inst_uuid i @ '' '' @ properties i"
| "render (Coll c) = ''collection '' @ coll_uuid c @ '' '' @ concat (map fst (coll_instances c))"

definition ext0 :: ext where
  "ext0 =
     \<lparr>mediatypes = [(''application/json'', ''json'')],
      new_uuid = ''c-new'',
      mkdtemp = ''/tmp/tmpk3x9'',
      dlite_get_instances =
        (\<lambda>coll m ai. yield_all (filter (\<lambda>i. meta_uri i = m) (map snd (coll_instances coll)))),
      dlite_copy = (\<lambda>coll newid. Inr (coll\<lparr>coll_uuid := ''uuid-of-'' @ newid\<rparr>)),
      dlite_save =
        (\<lambda>inst drv loc opts fs. if drv = ''json'' then Inr (render inst) else Inl PersistenceError),
      ts_connect = (\<lambda>s. None),
      ts_save_container = (\<lambda>g res iri. Inr (g @ [(iri, ''metadata'', res_metadata res)])),
      ts_add = (\<lambda>g t. Inr (g @ [t])),
      ts_restrictions =
        (\<lambda>g cls p. Inr (map (\<lambda>t. snd (snd t)) (filter (\<lambda>t. fst t = cls \<and> fst (snd t) = p) g))),
      ts_load_container = (\<lambda>g indv. Inr None),
      ts_close = (\<lambda>g. None)\<rparr>"

text \<open>The same collaborators, with a generator that raises inside its first step.\<close>

definition ext_raise :: ext where
  "ext_raise = ext0\<lparr>dlite_get_instances := (\<lambda>coll m ai. Raise (DLiteError ''TypeError''))\<rparr>"

definition w0 :: world where
  "w0 =
     \<lparr>session_collection_id = Some ''c0'',
      session_settings = Map.empty,
      registry = [''c0'' \<mapsto> coll0],
      files = Map.empty,
      cache = Map.empty,
      graph = [],
      trace = []\<rparr>"

text \<open>The same session after the settings strategy has stored the triplestore settings.\<close>

definition w_kb :: world where
  "w_kb =
     w0\<lparr>session_settings := [''tripper.triplestore'' \<mapsto> [(''backend'', ''rdflib'')]],
        graph := [(''http://example.com/comp'', hasInput, ''http://example.com/input1'')]\<rparr>"

text \<open>The configuration with every field at its default (lines 44-168).\<close>

definition cfg0 :: config where
  "cfg0 =
     \<lparr>driver = None, mediaType = None, options = None, location = None, label = None,
      datamodel = None, store_collection = False, store_collection_id = None,
      allow_incomplete = Some False, collection_id = None, datacache_config = None,
      kb_document_iri = None, kb_document_context = None, kb_document_computation = None\<rparr>"

text \<open>
  The first scenario of the spec: the instance labelled \<^verbatim>\<open>image\<close>, the \<^verbatim>\<open>json\<close>
  driver, a location.
\<close>

definition cfg_file :: config where
  "cfg_file = cfg0\<lparr>label := Some ''image'', driver := Some ''json'', location := Some ''/tmp/out.json''\<rparr>"

text \<open>The same without a location: the data cache is the target.\<close>

definition cfg_cache :: config where
  "cfg_cache = cfg0\<lparr>label := Some ''image'', driver := Some ''json''\<rparr>"

text \<open>All three selection fields set at once.\<close>

definition cfg_all :: config where
  "cfg_all = cfg_file\<lparr>datamodel := Some ''http://onto-ns.com/meta/1.0/Other'', store_collection := True\<rparr>"

text \<open>The second scenario of the spec: a datamodel that nothing in the collection matches.\<close>

definition cfg_nomatch :: config where
  "cfg_nomatch =
     cfg0\<lparr>datamodel := Some ''http://onto-ns.com/meta/1.0/Missing'',
          mediaType := Some ''application/json'',
          datacache_config := Some \<lparr>accessKey = Some ''k1''\<rparr>\<rparr>"

text \<open>Selection by a datamodel that the instance \<^verbatim>\<open>image\<close> has.\<close>

definition cfg_match :: config where
  "cfg_match = cfg0\<lparr>datamodel := Some image_meta, driver := Some ''json'', location := Some ''/tmp/out.json''\<rparr>"

text \<open>
  The same selection where an earlier step fails: an unknown media type, no driver and no
  media type at all, and a collection id that names no collection.
\<close>

definition cfg_nomatch_media :: config where
  "cfg_nomatch_media = cfg_nomatch\<lparr>mediaType := Some ''foo/bar''\<rparr>"

definition cfg_nomatch_nodriver :: config where
  "cfg_nomatch_nodriver = cfg_nomatch\<lparr>mediaType := None\<rparr>"

definition cfg_nomatch_nocoll :: config where
  "cfg_nomatch_nocoll = cfg_nomatch\<lparr>collection_id := Some ''missing''\<rparr>"

text \<open>No selection field set; once with a driver, once with an unknown media type.\<close>

definition cfg_none :: config where
  "cfg_none = cfg0\<lparr>driver := Some ''json''\<rparr>"

definition cfg_none_media :: config where
  "cfg_none_media = cfg0\<lparr>mediaType := Some ''foo/bar''\<rparr>"

text \<open>A session that has no collection yet.\<close>

definition w_new :: world where
  "w_new = w0\<lparr>session_collection_id := None, registry := Map.empty\<rparr>"

text \<open>The third scenario of the spec: the whole collection, copied under a new id.\<close>

definition cfg_copy :: config where
  "cfg_copy =
     cfg0\<lparr>driver := Some ''json'', location := Some ''/tmp/coll.json'',
          store_collection := True, store_collection_id := Some ''copy1''\<rparr>"

text \<open>The whole collection under its own id.\<close>

definition cfg_store :: config where
  "cfg_store = cfg_copy\<lparr>store_collection_id := None\<rparr>"

text \<open>The whole collection without a location, and the copy with an unknown media type.\<close>

definition cfg_store_cache :: config where
  "cfg_store_cache = cfg_store\<lparr>location := None\<rparr>"

definition cfg_copy_media :: config where
  "cfg_copy_media = cfg_copy\<lparr>driver := None, mediaType := Some ''foo/bar''\<rparr>"

text \<open>Documentation in the knowledge base, with the driver resolved from the media type.\<close>

definition cfg_kb :: config where
  "cfg_kb =
     cfg0\<lparr>label := Some ''image'', mediaType := Some ''application/json'',
          location := Some ''/tmp/out.json'', kb_document_iri := Some ''http://example.com/out''\<rparr>"

text \<open>The same without a location, and the same without a selection field.\<close>

definition cfg_kb_cache :: config where
  "cfg_kb_cache = cfg_kb\<lparr>location := None\<rparr>"

definition cfg_kb_none :: config where
  "cfg_kb_none = cfg_kb\<lparr>label := None\<rparr>"

text \<open>
  The same with a computation whose only has-input restriction in \<open>w_kb\<close> names an
  individual that has no documented metadata.
\<close>

definition cfg_computation :: config where
  "cfg_computation = cfg_kb\<lparr>kb_document_computation := Some ''http://example.com/comp''\<rparr>"

section \<open>Properties\<close>

text \<open>
  The definitions that evaluate \<open>get\<close> on the concrete session.
\<close>

lemmas eval_defs = get_def resolve_driver_def get_driver_def get_collection_def select_inst_def
  persist_def inst_save_def rmtree_def cache_key_def document_def kb_body_def get_settings_def
  resource_of_def log_event_def update_collection_def given_def ext_raise_def
  check_input_def lookup_name_def bound_names_def hasInput_def
  ext0_def w0_def w_kb_def w_new_def cfg0_def cfg_file_def cfg_cache_def cfg_all_def cfg_nomatch_def
  cfg_none_def cfg_match_def cfg_none_media_def cfg_copy_def cfg_store_def cfg_kb_def cfg_computation_def
  cfg_nomatch_media_def cfg_nomatch_nodriver_def cfg_nomatch_nocoll_def cfg_store_cache_def
  cfg_copy_media_def cfg_kb_cache_def cfg_kb_none_def
  coll0_def image_def image_meta_def new_events_def tmp_fresh_def

subsection \<open>What each step leaves alone\<close>

lemma given_None_iff: "given s = None \<longleftrightarrow> s = None \<or> s = Some []"
  by (simp add: given_def split: option.splits)

lemma get_collection_frame:
  "get_collection e w cid = (r, w1) \<Longrightarrow>
     files w1 = files w \<and> cache w1 = cache w \<and> graph w1 = graph w \<and> trace w1 = trace w
     \<and> session_settings w1 = session_settings w"
  by (auto simp: get_collection_def split: option.splits)

lemma persist_frame:
  "persist e c drv inst w = (r, w1) \<Longrightarrow>
     graph w1 = graph w \<and> trace w1 = trace w \<and> registry w1 = registry w
     \<and> session_settings w1 = session_settings w \<and> session_collection_id w1 = session_collection_id w"
  by (auto simp: persist_def inst_save_def rmtree_def split: option.splits sum.splits)

lemma add_context_frame:
  "add_context e iri kvs w = (r, w1) \<Longrightarrow>
     files w1 = files w \<and> cache w1 = cache w \<and> registry w1 = registry w
     \<and> session_settings w1 = session_settings w \<and> session_collection_id w1 = session_collection_id w"
  by (induction e iri kvs w rule: add_context.induct)
     (auto simp: log_event_def split: sum.splits)

lemma kb_body_frame:
  "kb_body e c iri res w = (r, w1) \<Longrightarrow>
     files w1 = files w \<and> cache w1 = cache w \<and> registry w1 = registry w
     \<and> session_settings w1 = session_settings w \<and> session_collection_id w1 = session_collection_id w"
  by (auto simp: kb_body_def log_event_def split: sum.splits option.splits prod.splits dest!: add_context_frame)

lemma document_frame:
  "document e c inst w = (r, w1) \<Longrightarrow>
     files w1 = files w \<and> cache w1 = cache w \<and> registry w1 = registry w
     \<and> session_settings w1 = session_settings w \<and> session_collection_id w1 = session_collection_id w"
  by (auto simp: document_def get_settings_def log_event_def split: sum.splits option.splits prod.splits if_splits dest!: kb_body_frame)

subsection \<open>The calls each step makes on the knowledge base\<close>

lemma add_context_trace:
  "\<exists>evs. trace (snd (add_context e iri kvs w)) = trace w @ evs \<and> (\<forall>ev\<in>set evs. \<exists>t. ev = TsAdd t)"
proof (induction e iri kvs w rule: add_context.induct)
  case (1 e iri w)
  then show ?case by simp
next
  case (2 e iri p v kvs w)
  show ?case
  proof (cases "ts_add e (graph w) (iri, p, v)")
    case (Inl err)
    then show ?thesis by (simp add: log_event_def)
  next
    case (Inr g)
    from 2 [OF Inr] obtain evs where
      "trace (snd (add_context e iri kvs (log_event (TsAdd (iri, p, v)) (w\<lparr>graph := g\<rparr>))))
         = trace (log_event (TsAdd (iri, p, v)) (w\<lparr>graph := g\<rparr>)) @ evs"
      and "\<forall>ev\<in>set evs. \<exists>t. ev = TsAdd t"
      by blast
    then show ?thesis using Inr
      by (intro exI [of _ "TsAdd (iri, p, v) # evs"]) (simp add: log_event_def)
  qed
qed

lemma kb_body_trace:
  "\<exists>evs. trace (snd (kb_body e c iri res w)) = trace w @ SaveContainer res iri # evs \<and> list_all is_call evs"
proof (cases "ts_save_container e (graph w) res iri")
  case (Inl err)
  then show ?thesis by (simp add: kb_body_def log_event_def)
next
  case (Inr g)
  define w' where "w' = log_event (SaveContainer res iri) (w\<lparr>graph := g\<rparr>)"
  define kvs where "kvs = (case kb_document_context c of None \<Rightarrow> [] | Some kvs \<Rightarrow> kvs)"
  obtain evs where evs: "trace (snd (add_context e iri kvs w')) = trace w' @ evs"
    and adds: "\<forall>ev\<in>set evs. \<exists>t. ev = TsAdd t"
    using add_context_trace by blast
  have calls: "list_all is_call evs"
    using adds by (auto simp: list_all_iff)
  obtain r w1 where rw: "add_context e iri kvs w' = (r, w1)"
    by (cases "add_context e iri kvs w'")
  have tw1: "trace w1 = trace w @ SaveContainer res iri # evs"
    using evs rw by (simp add: w'_def log_event_def)
  have body: "kb_body e c iri res w =
     (case r of Inl err \<Rightarrow> (Inl err, w1)
      | Inr u \<Rightarrow>
         (case given (kb_document_computation c) of
            None \<Rightarrow> (Inr (), w1)
          | Some computation \<Rightarrow>
              (case ts_restrictions e (graph w1) computation hasInput of
                 Inl err \<Rightarrow> (Inl err, log_event (TsRestrictions computation hasInput) w1)
               | Inr rs \<Rightarrow> (check_inputs e w1 rs, log_event (TsRestrictions computation hasInput) w1))))"
    using Inr rw by (simp add: kb_body_def w'_def kvs_def split: sum.splits)
  show ?thesis
  proof (cases r)
    case (Inl err)
    then show ?thesis using body tw1 calls by simp
  next
    case r: (Inr u)
    show ?thesis
    proof (cases "given (kb_document_computation c)")
      case None
      then show ?thesis using body r tw1 calls by simp
    next
      case (Some computation)
      have "trace (snd (kb_body e c iri res w)) =
          trace w @ SaveContainer res iri # (evs @ [TsRestrictions computation hasInput])"
        using body r Some tw1 by (simp add: log_event_def split: sum.splits)
      moreover have "list_all is_call (evs @ [TsRestrictions computation hasInput])"
        using calls by simp
      ultimately show ?thesis by blast
    qed
  qed
qed

lemma document_trace:
  "new_events w (snd (document e c inst w)) = [] \<or>
   (\<exists>s iri evs. given (kb_document_iri c) = Some iri \<and>
      new_events w (snd (document e c inst w)) =
        TsOpen s # SaveContainer (resource_of c inst) iri # evs @ [TsClose] \<and> list_all is_call evs)"
proof (cases "given (kb_document_iri c)")
  case None
  then show ?thesis by (simp add: document_def new_events_def)
next
  case (Some iri)
  show ?thesis
  proof (cases "get_settings w ''tripper.triplestore''")
    case None
    then show ?thesis using Some by (simp add: document_def new_events_def)
  next
    case st: (Some kb_settings)
    show ?thesis
    proof (cases "kb_settings = [] \<or> ts_connect e kb_settings \<noteq> None")
      case True
      then show ?thesis using Some st by (auto simp: document_def new_events_def)
    next
      case False
      define w' where "w' = log_event (TsOpen kb_settings) w"
      obtain evs where evs: "trace (snd (kb_body e c iri (resource_of c inst) w')) =
          trace w' @ SaveContainer (resource_of c inst) iri # evs" and calls: "list_all is_call evs"
        using kb_body_trace by blast
      have "trace (snd (document e c inst w)) =
          trace (snd (kb_body e c iri (resource_of c inst) w')) @ [TsClose]"
        using Some st False
        by (simp add: document_def w'_def log_event_def split: prod.splits option.splits)
      then have "new_events w (snd (document e c inst w)) =
          TsOpen kb_settings # SaveContainer (resource_of c inst) iri # evs @ [TsClose]"
        using evs by (simp add: new_events_def w'_def log_event_def)
      then show ?thesis using Some calls by blast
    qed
  qed
qed

lemma get_trace_cases:
  "trace (snd (get e c w)) = trace w \<or>
   (\<exists>inst w2. trace w2 = trace w \<and> trace (snd (get e c w)) = trace (snd (document e c inst w2)))"
proof (cases "resolve_driver e c")
  case (Inl err)
  then show ?thesis by (simp add: get_def)
next
  case drv: (Inr drv)
  obtain r1 w1 where gc: "get_collection e w (collection_id c) = (r1, w1)"
    by (cases "get_collection e w (collection_id c)")
  have t1: "trace w1 = trace w" using get_collection_frame [OF gc] by simp
  show ?thesis
  proof (cases r1)
    case (Inl err)
    then show ?thesis using drv gc t1 by (simp add: get_def)
  next
    case coll: (Inr coll)
    show ?thesis
    proof (cases "select_inst e c coll")
      case (Inl err)
      then show ?thesis using drv gc coll t1 by (simp add: get_def)
    next
      case inst: (Inr inst)
      obtain r2 w2 where ps: "persist e c drv inst w1 = (r2, w2)"
        by (cases "persist e c drv inst w1")
      have t2: "trace w2 = trace w" using persist_frame [OF ps] t1 by simp
      show ?thesis
      proof (cases r2)
        case (Inl err)
        then show ?thesis using drv gc coll inst ps t2 by (simp add: get_def)
      next
        case (Inr u)
        have "trace (snd (get e c w)) = trace (snd (document e c inst w2))"
          using drv gc coll inst ps Inr
          by (simp add: get_def update_collection_def split: prod.splits sum.splits)
        then show ?thesis using t2 by blast
      qed
    qed
  qed
qed

lemma get_new_events:
  "new_events w (snd (get e c w)) = [] \<or>
   (\<exists>s iri inst evs. given (kb_document_iri c) = Some iri \<and>
      new_events w (snd (get e c w)) =
        TsOpen s # SaveContainer (resource_of c inst) iri # evs @ [TsClose] \<and> list_all is_call evs)"
proof -
  from get_trace_cases [of e c w] show ?thesis
  proof
    assume "trace (snd (get e c w)) = trace w"
    then show ?thesis by (simp add: new_events_def)
  next
    assume "\<exists>inst w2. trace w2 = trace w \<and> trace (snd (get e c w)) = trace (snd (document e c inst w2))"
    then obtain inst w2 where t2: "trace w2 = trace w"
      and tg: "trace (snd (get e c w)) = trace (snd (document e c inst w2))" by blast
    have eq: "new_events w (snd (get e c w)) = new_events w2 (snd (document e c inst w2))"
      using t2 tg by (simp add: new_events_def)
    from document_trace [of w2 e c inst] show ?thesis
      unfolding eq by blast
  qed
qed

lemma calls_quiet: "list_all is_call evs \<Longrightarrow> opens evs = 0 \<and> closes evs = 0"
  by (induction evs) (auto simp: opens_def closes_def elim: is_call.elims)

subsection \<open>The steps of \<open>get\<close> after the selection\<close>

lemma get_after_select:
  assumes "resolve_driver e c = Inr drv"
    and "get_collection e w (collection_id c) = (Inr coll, w1)"
    and "select_inst e c coll = Inr inst"
  shows "get e c w =
     (case persist e c drv inst w1 of
        (Inl err, w2) \<Rightarrow> (Inl err, w2)
      | (Inr u, w2) \<Rightarrow>
          (case document e c inst w2 of
             (Inl err, w3) \<Rightarrow> (Inl err, w3)
           | (Inr u', w3) \<Rightarrow>
               (Inr (DLiteSessionUpdate (coll_uuid coll)), update_collection coll w3)))"
  using assms by (simp add: get_def)

lemma persist_location:
  assumes "given (location c) = Some loc"
    and "dlite_save e inst drv loc (options c) (files w1) = Inr b"
  shows "persist e c drv inst w1 = (Inr (), w1\<lparr>files := (files w1)(loc \<mapsto> b)\<rparr>)"
  using assms by (simp add: persist_def inst_save_def)

lemma get_files_at_location:
  assumes "resolve_driver e c = Inr drv"
    and "get_collection e w (collection_id c) = (Inr coll, w1)"
    and "select_inst e c coll = Inr inst"
    and "given (location c) = Some loc"
    and "dlite_save e inst drv loc (options c) (files w1) = Inr b"
  shows "files (snd (get e c w)) loc = Some b"
proof -
  define w2 where "w2 = w1\<lparr>files := (files w1)(loc \<mapsto> b)\<rparr>"
  have ps: "persist e c drv inst w1 = (Inr (), w2)"
    using persist_location [OF assms(4,5)] by (simp add: w2_def)
  obtain r3 w3 where doc: "document e c inst w2 = (r3, w3)"
    by (cases "document e c inst w2")
  have f3: "files w3 = files w2" using document_frame [OF doc] by simp
  have "files (snd (get e c w)) = files w3"
    using get_after_select [OF assms(1-3)] ps doc
    by (cases r3) (simp_all add: update_collection_def)
  then show ?thesis using f3 by (simp add: w2_def)
qed


lemma persist_no_location:
  assumes "given (location c) = None" and "tmp_fresh e w"
  shows "(\<exists>err. fst (persist e c drv inst w) = Inl err) \<and> cache (snd (persist e c drv inst w)) = cache w"
  using assms
  by (auto simp: persist_def inst_save_def rmtree_def tmp_fresh_def split: option.splits sum.splits)

lemma check_inputs_nonempty: "check_inputs e w (r # rs) = Inl (NameError ''inputs'')"
  by (simp add: check_input_def lookup_name_def bound_names_def)

text \<open>
  A label that is set decides the selection, whatever the other two selection fields hold.
\<close>

lemma label_takes_precedence:
  "given (label c) = Some l \<Longrightarrow>
     select_inst e c coll = select_inst e (c\<lparr>datamodel := dm, store_collection := sc\<rparr>) coll"
  by (simp add: select_inst_def)

subsection \<open>C1: the cache branch\<close>

text \<open>
  Claim C1 says that without a location the serialised bytes are inserted into the data
  cache under the configured key, and that the temporary file is gone afterwards. The code
  does not do that. Line 253 saves to the literal relative path \<^verbatim>\<open>{tmpdir}/data\<close> and
  line 254 opens the file of that name in the temporary directory, which nothing has
  written. So with no location configured and a fresh temporary directory, \<open>get\<close>
  always ends in an exception and leaves the data cache as it was.
\<close>

theorem cache_branch_never_fills_cache:
  assumes "given (location c) = None" and "tmp_fresh e w"
  shows "(\<exists>err. fst (get e c w) = Inl err) \<and> cache (snd (get e c w)) = cache w"
proof (cases "resolve_driver e c")
  case (Inl err)
  then show ?thesis by (simp add: get_def)
next
  case drv: (Inr drv)
  obtain r1 w1 where gc: "get_collection e w (collection_id c) = (r1, w1)"
    by (cases "get_collection e w (collection_id c)")
  have f1: "cache w1 = cache w" "tmp_fresh e w1"
    using get_collection_frame [OF gc] assms(2) by (simp_all add: tmp_fresh_def)
  show ?thesis
  proof (cases r1)
    case (Inl err)
    then show ?thesis using drv gc f1 by (simp add: get_def)
  next
    case coll: (Inr coll)
    show ?thesis
    proof (cases "select_inst e c coll")
      case (Inl err)
      then show ?thesis using drv gc coll f1 by (simp add: get_def)
    next
      case inst: (Inr inst)
      from persist_no_location [OF assms(1) f1(2), of drv inst] obtain err where
        "fst (persist e c drv inst w1) = Inl err"
        and "cache (snd (persist e c drv inst w1)) = cache w1" by blast
      then show ?thesis using drv gc coll inst f1
        by (cases "persist e c drv inst w1") (simp add: get_def)
    qed
  qed
qed

text \<open>
  At the configuration \<open>cfg_cache\<close> (label \<^verbatim>\<open>image\<close>, driver \<^verbatim>\<open>json\<close>, no location):
  \<open>get\<close> raises \<open>FileNotFoundError\<close>, the cache has no entry under the default key,
  and the file written at \<^verbatim>\<open>{tmpdir}/data\<close> is still there after the call.
\<close>

theorem cache_branch_never_fills_cache_witness:
  "given (location cfg_cache) = None \<and> tmp_fresh ext0 w0 \<and>
   fst (get ext0 cfg_cache w0) = Inl (FileNotFoundError ''/tmp/tmpk3x9/data'') \<and>
   cache (snd (get ext0 cfg_cache w0)) = cache w0 \<and>
   cache w0 (cache_key cfg_cache) = None \<and>
   files (snd (get ext0 cfg_cache w0)) ''{tmpdir}/data'' = Some (render (Inst image))"
proof -
  have h1: "given (location cfg_cache) = None" by (simp add: eval_defs)
  have h2: "tmp_fresh ext0 w0" by (simp add: eval_defs)
  have "cache (snd (get ext0 cfg_cache w0)) = cache w0"
    using cache_branch_never_fills_cache [OF h1 h2] by simp
  moreover have "fst (get ext0 cfg_cache w0) = Inl (FileNotFoundError ''/tmp/tmpk3x9/data'')"
    by (simp add: eval_defs)
  moreover have "files (snd (get ext0 cfg_cache w0)) ''{tmpdir}/data'' = Some (render (Inst image))"
    by (simp add: eval_defs)
  moreover have "cache w0 (cache_key cfg_cache) = None" by (simp add: eval_defs)
  ultimately show ?thesis using h1 h2 by simp
qed

subsection \<open>C2: more than one selection field\<close>

text \<open>
  Claim C2 says that a configuration with more than one of \<^verbatim>\<open>label\<close>, \<^verbatim>\<open>datamodel\<close>
  and \<^verbatim>\<open>store_collection\<close> is rejected. The code evaluates the \<^verbatim>\<open>if/elif\<close> chain of
  lines 224-241 instead: with all three set, \<open>get\<close> succeeds and stores the instance of
  the label.
\<close>

theorem precedence_instead_of_rejection:
  "given (label cfg_all) = Some ''image'' \<and>
   given (datamodel cfg_all) = Some ''http://onto-ns.com/meta/1.0/Other'' \<and>
   store_collection cfg_all \<and>
   fst (get ext0 cfg_all w0) = Inr (DLiteSessionUpdate ''c0'') \<and>
   files (snd (get ext0 cfg_all w0)) ''/tmp/out.json'' = Some (render (Inst image))"
  by (simp add: eval_defs)

subsection \<open>C3: the inputs of a computation\<close>

text \<open>
  Claim C3 says that each input individual of the computation is loaded and that a missing
  metadata identifier is reported as \<open>KBError\<close> naming the individual. In the code the
  first statement of the loop body (line 310) looks up the unbound name \<^verbatim>\<open>inputs\<close>. With a
  computation that has one has-input restriction, whose individual has no documented
  metadata, \<open>get\<close> raises \<open>NameError\<close>, not \<open>KBError\<close>.
\<close>

theorem computation_inputs_name_error:
  "given (kb_document_iri cfg_computation) = Some ''http://example.com/out'' \<and>
   given (kb_document_computation cfg_computation) = Some ''http://example.com/comp'' \<and>
   ts_restrictions ext0 (graph w_kb) ''http://example.com/comp'' hasInput = Inr [''http://example.com/input1''] \<and>
   ts_load_container ext0 (graph w_kb) (Some ''http://example.com/input1'') = Inr None \<and>
   fst (get ext0 cfg_computation w_kb) = Inl (NameError ''inputs'')"
  by (simp add: eval_defs)

subsection \<open>C4: selection by datamodel\<close>

text \<open>
  Claim C4 as stated fails. The driver is resolved and the collection fetched (lines
  216-222) before the generator is asked for anything. In the session \<open>w0\<close> the sequence
  for the datamodel is empty, yet with an unknown media type \<open>get\<close> fails with
  UnsupportedMediaTypeError, with neither driver nor media type with the error of
  \<^verbatim>\<open>get_driver\<close>, and with a collection id that names no collection with NotFoundError;
  none of them is \<open>StopIteration\<close>.
\<close>

theorem first_instance_counterexample:
  "given (label cfg_nomatch_media) = None \<and>
   given (datamodel cfg_nomatch_media) = Some ''http://onto-ns.com/meta/1.0/Missing'' \<and>
   dlite_get_instances ext0 coll0 ''http://onto-ns.com/meta/1.0/Missing''
     (allow_incomplete cfg_nomatch_media) = Exhausted \<and>
   fst (get ext0 cfg_nomatch_media w0) = Inl UnsupportedMediaTypeError \<and>
   given (label cfg_nomatch_nodriver) = None \<and>
   given (datamodel cfg_nomatch_nodriver) = Some ''http://onto-ns.com/meta/1.0/Missing'' \<and>
   fst (get ext0 cfg_nomatch_nodriver w0) = Inl ValueError \<and>
   given (label cfg_nomatch_nocoll) = None \<and>
   given (datamodel cfg_nomatch_nocoll) = Some ''http://onto-ns.com/meta/1.0/Missing'' \<and>
   fst (get ext0 cfg_nomatch_nocoll w0) = Inl NotFoundError"
  by (simp add: eval_defs)

text \<open>
  Claim C4, amended. When the selection is by datamodel (no label, a datamodel): if driver
  resolution fails, \<open>get\<close> fails with its error; else if the collection lookup fails,
  with its error; else \<open>get\<close> runs the first step of the generator, with the files and
  the cache untouched so far. If the generator is exhausted (the sequence is empty),
  \<open>get\<close> raises \<open>StopIteration\<close> (the spec's NoMatchError) and leaves the world as the
  collection lookup left it, so the cache key is not written. If the generator raises,
  \<open>get\<close> fails with that exception, in the same world. Otherwise the first element is
  the selected instance, and it is what the driver writes at a configured location.
\<close>

theorem first_instance_or_error:
  assumes "given (label c) = None" and "given (datamodel c) = Some m"
  shows
    "(case resolve_driver e c of
        Inl e1 \<Rightarrow> get e c w = (Inl e1, w)
      | Inr drv \<Rightarrow>
          (case get_collection e w (collection_id c) of
             (Inl e2, w1) \<Rightarrow> get e c w = (Inl e2, w1)
           | (Inr coll, w1) \<Rightarrow>
               cache w1 = cache w \<and> files w1 = files w \<and>
               (case dlite_get_instances e coll m (allow_incomplete c) of
                  Exhausted \<Rightarrow> get e c w = (Inl StopIteration, w1)
                | Raise err \<Rightarrow> get e c w = (Inl err, w1)
                | Yield i rest \<Rightarrow>
                    select_inst e c coll = Inr (Inst i) \<and>
                    (\<forall>loc b. given (location c) = Some loc \<longrightarrow>
                       dlite_save e (Inst i) drv loc (options c) (files w1) = Inr b \<longrightarrow>
                       files (snd (get e c w)) loc = Some b))))"
proof (cases "resolve_driver e c")
  case (Inl e1)
  then show ?thesis by (simp add: get_def)
next
  case drv: (Inr drv)
  obtain r1 w1 where gc: "get_collection e w (collection_id c) = (r1, w1)"
    by (cases "get_collection e w (collection_id c)")
  have frame: "cache w1 = cache w \<and> files w1 = files w"
    using get_collection_frame [OF gc] by simp
  show ?thesis
  proof (cases r1)
    case (Inl e2)
    then show ?thesis using drv gc by (simp add: get_def)
  next
    case coll: (Inr coll)
    have gc': "get_collection e w (collection_id c) = (Inr coll, w1)"
      using gc coll by simp
    show ?thesis
    proof (cases "dlite_get_instances e coll m (allow_incomplete c)")
      case (Yield i rest)
      have sel: "select_inst e c coll = Inr (Inst i)"
        using assms Yield by (simp add: select_inst_def)
      have "\<And>loc b. given (location c) = Some loc \<Longrightarrow>
          dlite_save e (Inst i) drv loc (options c) (files w1) = Inr b \<Longrightarrow>
          files (snd (get e c w)) loc = Some b"
        using get_files_at_location [OF drv gc' sel] by blast
      then show ?thesis using drv gc' frame Yield sel by simp
    next
      case (Raise err)
      then have "select_inst e c coll = Inl err"
        using assms by (simp add: select_inst_def)
      then show ?thesis using drv gc' frame Raise by (simp add: get_def)
    next
      case Exhausted
      then have "select_inst e c coll = Inl StopIteration"
        using assms by (simp add: select_inst_def)
      then show ?thesis using drv gc' frame Exhausted by (simp add: get_def)
    qed
  qed
qed

text \<open>
  The second scenario of the spec (nothing matches, cache key \<^verbatim>\<open>k1\<close> never written); a
  datamodel that the instance \<^verbatim>\<open>image\<close> has; and a generator that raises inside its first
  step.
\<close>

theorem first_instance_or_error_witness:
  "given (label cfg_nomatch) = None \<and>
   given (datamodel cfg_nomatch) = Some ''http://onto-ns.com/meta/1.0/Missing'' \<and>
   dlite_get_instances ext0 coll0 ''http://onto-ns.com/meta/1.0/Missing'' (allow_incomplete cfg_nomatch)
     = Exhausted \<and>
   get ext0 cfg_nomatch w0 = (Inl StopIteration, w0) \<and>
   cache_key cfg_nomatch = ''k1'' \<and> cache w0 ''k1'' = None \<and>
   get ext_raise cfg_nomatch w0 = (Inl (DLiteError ''TypeError''), w0) \<and>
   given (label cfg_match) = None \<and> given (datamodel cfg_match) = Some image_meta \<and>
   dlite_get_instances ext0 coll0 image_meta (allow_incomplete cfg_match) = Yield image Exhausted \<and>
   select_inst ext0 cfg_match coll0 = Inr (Inst image) \<and>
   files (snd (get ext0 cfg_match w0)) ''/tmp/out.json'' = Some (render (Inst image))"
proof -
  have h1: "given (label cfg_nomatch) = None" by (simp add: eval_defs)
  have h2: "given (datamodel cfg_nomatch) = Some ''http://onto-ns.com/meta/1.0/Missing''"
    by (simp add: eval_defs)
  have h3: "resolve_driver ext0 cfg_nomatch = Inr ''json''" by (simp add: eval_defs)
  have h4: "get_collection ext0 w0 (collection_id cfg_nomatch) = (Inr coll0, w0)"
    by (simp add: eval_defs)
  have h5: "dlite_get_instances ext0 coll0 ''http://onto-ns.com/meta/1.0/Missing''
      (allow_incomplete cfg_nomatch) = Exhausted"
    by (simp add: eval_defs)
  have a: "get ext0 cfg_nomatch w0 = (Inl StopIteration, w0)"
    using first_instance_or_error [OF h1 h2, of ext0 w0] by (simp add: h3 h4 h5)
  have k: "cache_key cfg_nomatch = ''k1'' \<and> cache w0 ''k1'' = None" by (simp add: eval_defs)
  have r3: "resolve_driver ext_raise cfg_nomatch = Inr ''json''" by (simp add: eval_defs)
  have r4: "get_collection ext_raise w0 (collection_id cfg_nomatch) = (Inr coll0, w0)"
    by (simp add: eval_defs)
  have r5: "dlite_get_instances ext_raise coll0 ''http://onto-ns.com/meta/1.0/Missing''
      (allow_incomplete cfg_nomatch) = Raise (DLiteError ''TypeError'')"
    by (simp add: eval_defs)
  have r: "get ext_raise cfg_nomatch w0 = (Inl (DLiteError ''TypeError''), w0)"
    using first_instance_or_error [OF h1 h2, of ext_raise w0] by (simp add: r3 r4 r5)
  have g1: "given (label cfg_match) = None" by (simp add: eval_defs)
  have g2: "given (datamodel cfg_match) = Some image_meta" by (simp add: eval_defs)
  have g3: "resolve_driver ext0 cfg_match = Inr ''json''" by (simp add: eval_defs)
  have g4: "get_collection ext0 w0 (collection_id cfg_match) = (Inr coll0, w0)"
    by (simp add: eval_defs)
  have g5: "dlite_get_instances ext0 coll0 image_meta (allow_incomplete cfg_match) = Yield image Exhausted"
    by (simp add: eval_defs)
  have g6: "given (location cfg_match) = Some ''/tmp/out.json''" by (simp add: eval_defs)
  have g7: "dlite_save ext0 (Inst image) ''json'' ''/tmp/out.json'' (options cfg_match) (files w0)
      = Inr (render (Inst image))" by (simp add: eval_defs)
  have b: "select_inst ext0 cfg_match coll0 = Inr (Inst image) \<and>
      files (snd (get ext0 cfg_match w0)) ''/tmp/out.json'' = Some (render (Inst image))"
    using first_instance_or_error [OF g1 g2, of ext0 w0] g6 g7 by (simp add: g3 g4 g5)
  show ?thesis using h1 h2 h5 a k r g1 g2 g5 b by simp
qed

subsection \<open>C5: the two persistence branches\<close>

text \<open>
  Claim C5 says that the location branch and the cache branch store the same bytes. For the
  same artifact and driver, the location branch writes the rendering at the location, while
  the cache branch raises and the cache holds nothing under the key (the defect of C1).
\<close>

theorem branches_not_equivalent:
  "cfg_cache = cfg_file\<lparr>location := None\<rparr> \<and>
   files (snd (get ext0 cfg_file w0)) ''/tmp/out.json'' = Some (render (Inst image)) \<and>
   fst (get ext0 cfg_cache w0) = Inl (FileNotFoundError ''/tmp/tmpk3x9/data'') \<and>
   cache (snd (get ext0 cfg_cache w0)) (cache_key cfg_cache) = None"
  by (simp add: eval_defs)

subsection \<open>C6: no selection field\<close>




subsection \<open>C7: missing triplestore settings\<close>

text \<open>
  Claim C7 as stated fails. The settings are looked up only after driver resolution, the
  collection lookup, the selection and persistence (lines 216-255). With
  \<^verbatim>\<open>kb_document_iri\<close> set and no settings in the session, a configuration without a
  selection field fails with the \<open>ValueError\<close> of line 239, and a configuration without a
  location fails in the cache branch with \<open>FileNotFoundError\<close>, leaving the cache empty;
  neither is \<open>KeyError\<close>.
\<close>

theorem missing_settings_counterexample:
  "given (kb_document_iri cfg_kb_none) = Some ''http://example.com/out'' \<and>
   given (kb_document_iri cfg_kb_cache) = Some ''http://example.com/out'' \<and>
   get_settings w0 ''tripper.triplestore'' = None \<and>
   fst (get ext0 cfg_kb_none w0) = Inl ValueError \<and>
   fst (get ext0 cfg_kb_cache w0) = Inl (FileNotFoundError ''/tmp/tmpk3x9/data'') \<and>
   cache (snd (get ext0 cfg_kb_cache w0)) (cache_key cfg_kb_cache) = None"
  by (simp add: eval_defs)

text \<open>
  Claim C7, amended. When \<^verbatim>\<open>kb_document_iri\<close> is set and the session has no (or empty)
  \<^verbatim>\<open>tripper.triplestore\<close> settings, \<open>get\<close> never succeeds: it fails with the error of the
  first of driver resolution, collection lookup, selection and persistence that fails, and
  with \<open>KeyError\<close> (the spec's MissingConfigurationError) when all four succeed. The world
  it then leaves is exactly the one persistence left; with a location, that world holds
  the bytes the driver wrote there.
\<close>

theorem missing_settings_after_persistence:
  assumes "given (kb_document_iri c) = Some iri"
    and "get_settings w ''tripper.triplestore'' = None \<or> get_settings w ''tripper.triplestore'' = Some []"
  shows
    "get e c w =
       (case resolve_driver e c of
          Inl e1 \<Rightarrow> (Inl e1, w)
        | Inr drv \<Rightarrow>
            (case get_collection e w (collection_id c) of
               (Inl e2, w1) \<Rightarrow> (Inl e2, w1)
             | (Inr coll, w1) \<Rightarrow>
                 (case select_inst e c coll of
                    Inl e3 \<Rightarrow> (Inl e3, w1)
                  | Inr inst \<Rightarrow>
                      (case persist e c drv inst w1 of
                         (Inl e4, w2) \<Rightarrow> (Inl e4, w2)
                       | (Inr u, w2) \<Rightarrow> (Inl KeyError, w2))))) \<and>
     (\<forall>drv coll w1 inst loc b.
        resolve_driver e c = Inr drv \<longrightarrow>
        get_collection e w (collection_id c) = (Inr coll, w1) \<longrightarrow>
        select_inst e c coll = Inr inst \<longrightarrow>
        given (location c) = Some loc \<longrightarrow>
        dlite_save e inst drv loc (options c) (files w1) = Inr b \<longrightarrow>
        get e c w = (Inl KeyError, w1\<lparr>files := (files w1)(loc \<mapsto> b)\<rparr>))"
proof -
  have doc: "document e c inst w2 = (Inl KeyError, w2)"
    if "get_collection e w (collection_id c) = (Inr coll, w1)"
      and "persist e c drv inst w1 = (Inr u, w2)" for coll w1 drv inst u w2
  proof -
    have "session_settings w2 = session_settings w"
      using get_collection_frame [OF that(1)] persist_frame [OF that(2)] by simp
    then have "get_settings w2 ''tripper.triplestore'' = get_settings w ''tripper.triplestore''"
      by (simp add: get_settings_def)
    then show ?thesis using assms by (auto simp: document_def)
  qed
  have first: "get e c w =
       (case resolve_driver e c of
          Inl e1 \<Rightarrow> (Inl e1, w)
        | Inr drv \<Rightarrow>
            (case get_collection e w (collection_id c) of
               (Inl e2, w1) \<Rightarrow> (Inl e2, w1)
             | (Inr coll, w1) \<Rightarrow>
                 (case select_inst e c coll of
                    Inl e3 \<Rightarrow> (Inl e3, w1)
                  | Inr inst \<Rightarrow>
                      (case persist e c drv inst w1 of
                         (Inl e4, w2) \<Rightarrow> (Inl e4, w2)
                       | (Inr u, w2) \<Rightarrow> (Inl KeyError, w2)))))"
    using doc by (auto simp: get_def split: sum.splits prod.splits)
  have second: "get e c w = (Inl KeyError, w1\<lparr>files := (files w1)(loc \<mapsto> b)\<rparr>)"
    if "resolve_driver e c = Inr drv"
      and "get_collection e w (collection_id c) = (Inr coll, w1)"
      and "select_inst e c coll = Inr inst"
      and "given (location c) = Some loc"
      and "dlite_save e inst drv loc (options c) (files w1) = Inr b" for drv coll w1 inst loc b
    using first that persist_location [OF that(4,5)] by simp
  show ?thesis using first second by blast
qed

text \<open>The file written at the location is there when \<open>KeyError\<close> is raised.\<close>

theorem missing_settings_after_persistence_witness:
  "given (kb_document_iri cfg_kb) = Some ''http://example.com/out'' \<and>
   get_settings w0 ''tripper.triplestore'' = None \<and>
   get ext0 cfg_kb w0 =
     (Inl KeyError, w0\<lparr>files := (files w0)(''/tmp/out.json'' \<mapsto> render (Inst image))\<rparr>)"
proof -
  have h1: "given (kb_document_iri cfg_kb) = Some ''http://example.com/out''"
    by (simp add: eval_defs)
  have h2: "get_settings w0 ''tripper.triplestore'' = None" by (simp add: eval_defs)
  have h3: "resolve_driver ext0 cfg_kb = Inr ''json''" by (simp add: eval_defs)
  have h4: "get_collection ext0 w0 (collection_id cfg_kb) = (Inr coll0, w0)"
    by (simp add: eval_defs)
  have h5: "select_inst ext0 cfg_kb coll0 = Inr (Inst image)" by (simp add: eval_defs)
  have h6: "given (location cfg_kb) = Some ''/tmp/out.json''" by (simp add: eval_defs)
  have h7: "dlite_save ext0 (Inst image) ''json'' ''/tmp/out.json'' (options cfg_kb) (files w0)
      = Inr (render (Inst image))" by (simp add: eval_defs)
  have "get ext0 cfg_kb w0 =
     (Inl KeyError, w0\<lparr>files := (files w0)(''/tmp/out.json'' \<mapsto> render (Inst image))\<rparr>)"
    using missing_settings_after_persistence [OF h1 disjI1 [OF h2], of ext0] h3 h4 h5 h6 h7
    by blast
  then show ?thesis using h1 h2 by simp
qed

subsection \<open>C8: the knowledge-base connection\<close>

text \<open>
  Claim C8. Every knowledge-base connection that \<open>get\<close> opens is closed exactly once, on
  every exit path: whatever the collaborators do (\<open>e\<close> is arbitrary, so saving the
  description, adding the context triples and querying the restrictions may each succeed
  or raise), the calls that \<open>get\<close> adds to the trace are either none at all, or one
  \<open>TsOpen\<close>, then calls that neither open nor close, then one final \<open>TsClose\<close>.
\<close>

theorem connection_closed_exactly_once:
  "new_events w (snd (get e c w)) = [] \<or>
   (\<exists>s mid. new_events w (snd (get e c w)) = TsOpen s # mid @ [TsClose] \<and>
      opens mid = 0 \<and> closes mid = 0)"
proof -
  from get_new_events [of w e c] show ?thesis
  proof
    assume "new_events w (snd (get e c w)) = []"
    then show ?thesis by simp
  next
    assume "\<exists>s iri inst evs. given (kb_document_iri c) = Some iri \<and>
      new_events w (snd (get e c w)) =
        TsOpen s # SaveContainer (resource_of c inst) iri # evs @ [TsClose] \<and> list_all is_call evs"
    then obtain s iri inst evs where
      ev: "new_events w (snd (get e c w)) = TsOpen s # SaveContainer (resource_of c inst) iri # evs @ [TsClose]"
      and calls: "list_all is_call evs" by blast
    have "opens (SaveContainer (resource_of c inst) iri # evs) = 0
        \<and> closes (SaveContainer (resource_of c inst) iri # evs) = 0"
      using calls_quiet [OF calls] by (simp add: opens_def closes_def)
    then show ?thesis using ev by (intro disjI2 exI [of _ s] exI [of _ "SaveContainer (resource_of c inst) iri # evs"]) simp
  qed
qed

subsection \<open>C9: storing the whole collection\<close>




subsection \<open>C10: the recorded driver\<close>

text \<open>
  Claim C10. A resource description that \<open>get\<close> saves is saved for the configured
  \<^verbatim>\<open>kb_document_iri\<close>, and its driver field is the configured \<^verbatim>\<open>driver\<close> value as it
  stands: when the driver was resolved from \<^verbatim>\<open>mediaType\<close> (no driver configured), the
  recorded driver is empty and is not the resolved driver name.
\<close>

theorem recorded_driver_is_configured_driver:
  assumes "SaveContainer r i \<in> set (new_events w (snd (get e c w)))"
  shows "given (kb_document_iri c) = Some i \<and> res_driver r = driver c \<and>
         (given (driver c) = None \<longrightarrow> given (res_driver r) = None \<and>
            (\<forall>d. resolve_driver e c = Inr d \<longrightarrow> d \<noteq> [] \<longrightarrow> res_driver r \<noteq> Some d))"
proof -
  from get_new_events [of w e c] assms obtain s iri inst evs where
    iri: "given (kb_document_iri c) = Some iri"
    and ev: "new_events w (snd (get e c w)) = TsOpen s # SaveContainer (resource_of c inst) iri # evs @ [TsClose]"
    and calls: "list_all is_call evs" by auto
  have "SaveContainer r i \<notin> set evs"
    using calls by (auto simp: list_all_iff)
  then have "r = resource_of c inst \<and> i = iri"
    using assms ev by auto
  then show ?thesis using iri
    by (auto simp: resource_of_def given_def split: option.splits if_splits)
qed

text \<open>
  With the media type \<^verbatim>\<open>application/json\<close> and no driver, the instance is written by
  the \<^verbatim>\<open>json\<close> driver and the description records no driver.
\<close>

theorem recorded_driver_is_configured_driver_witness:
  "SaveContainer (resource_of cfg_kb (Inst image)) ''http://example.com/out''
     \<in> set (new_events w_kb (snd (get ext0 cfg_kb w_kb))) \<and>
   given (driver cfg_kb) = None \<and>
   resolve_driver ext0 cfg_kb = Inr ''json'' \<and>
   res_driver (resource_of cfg_kb (Inst image)) = None \<and>
   res_driver (resource_of cfg_kb (Inst image)) \<noteq> Some ''json'' \<and>
   files (snd (get ext0 cfg_kb w_kb)) ''/tmp/out.json'' = Some (render (Inst image))"
proof -
  have h: "SaveContainer (resource_of cfg_kb (Inst image)) ''http://example.com/out''
     \<in> set (new_events w_kb (snd (get ext0 cfg_kb w_kb)))"
    by (simp add: eval_defs)
  have g: "given (driver cfg_kb) = None" by (simp add: eval_defs)
  have d: "resolve_driver ext0 cfg_kb = Inr ''json''" by (simp add: eval_defs)
  have n: "driver cfg_kb = None" by (simp add: eval_defs)
  have f: "files (snd (get ext0 cfg_kb w_kb)) ''/tmp/out.json'' = Some (render (Inst image))"
    by (simp add: eval_defs)
  from recorded_driver_is_configured_driver [OF h] g d n
  have "res_driver (resource_of cfg_kb (Inst image)) = None \<and>
        res_driver (resource_of cfg_kb (Inst image)) \<noteq> Some ''json''"
    by simp
  then show ?thesis using h g d f by simp
qed

end
